theory Spec2Isabelle
  imports Main "HOL-Library.Sublist"
begin

section \<open>JavaScript values and errors\<close>

text \<open>
  A thrown JavaScript error carries a name and a message. \<open>toString\<close> is
  \<open>Error.prototype.toString\<close>; a template string \<open>${e}\<close> calls it too.
\<close>

record js_error =
  e_name :: string
  e_message :: string

definition toString :: "js_error \<Rightarrow> string" where
  "toString e =
     (if e_name e = [] then e_message e
      else if e_message e = [] then e_name e
      else e_name e @ '': '' @ e_message e)"

definition Error :: "string \<Rightarrow> js_error" where
  "Error msg = \<lparr>e_name = ''Error'', e_message = msg\<rparr>"

text \<open>Reading a property of \<open>undefined\<close> (a handle that was never injected).\<close>

definition TypeError_undefined :: "string \<Rightarrow> js_error" where
  "TypeError_undefined prop =
     \<lparr>e_name = ''TypeError'',
      e_message = ''Cannot read properties of undefined (reading '' @ prop @ '')''\<rparr>"

definition TypeError_not_a_function :: "string \<Rightarrow> js_error" where
  "TypeError_not_a_function what =
     \<lparr>e_name = ''TypeError'', e_message = what @ '' is not a function''\<rparr>"

subsection \<open>ObjectId of the bson package\<close>

text \<open>
  An ObjectId is twelve bytes. The constructor of the bson package accepts a string of
  12 bytes or of 24 hex characters and throws an \<open>Error\<close> with the message below on any
  other string; the message is the one \<open>getMovieByID\<close> matches against.
\<close>

datatype objectid = OID "nat list"

definition invalid_id_message :: string where
  "invalid_id_message =
     ''Argument passed in must be a single String of 12 bytes or a string of 24 hex characters''"

definition is_hex :: "char \<Rightarrow> bool" where
  "is_hex c = (c \<in> set ''0123456789abcdefABCDEF'')"

definition hex_val :: "char \<Rightarrow> nat" where
  "hex_val c =
     (if c \<in> set ''0123456789'' then of_char c - 48
      else if c \<in> set ''abcdef'' then of_char c - 87
      else of_char c - 55)"

fun from_hex :: "string \<Rightarrow> nat list" where
  "from_hex (a # b # cs) = (16 * hex_val a + hex_val b) # from_hex cs"
| "from_hex _ = []"

definition ObjectId_isValid :: "string \<Rightarrow> bool" where
  "ObjectId_isValid s = (length s = 12 \<or> (length s = 24 \<and> list_all is_hex s))"

definition ObjectId :: "string \<Rightarrow> js_error + objectid" where
  "ObjectId s =
     (if \<not> ObjectId_isValid s then Inl (Error invalid_id_message)
      else if length s = 24 then Inr (OID (from_hex s))
      else Inr (OID (map of_char s)))"

subsection \<open>Values\<close>

text \<open>
  Filter objects, query documents, pipelines and movie documents are JavaScript values.
  An object is its list of properties; numbers are the integers.
\<close>

datatype js_value =
    Undefined
  | Null
  | Bool bool
  | Num int
  | Str string
  | Id objectid
  | Arr "js_value list"
  | Obj "(string \<times> js_value) list"

type_synonym js_object = "(string \<times> js_value) list"

definition has_key :: "string \<Rightarrow> js_object \<Rightarrow> bool" where
  \<comment> \<open>\<open>k in obj\<close>\<close>
  "has_key k obj = (map_of obj k \<noteq> None)"

definition get_prop :: "js_object \<Rightarrow> string \<Rightarrow> js_value" where
  \<comment> \<open>\<open>obj[k]\<close>: a missing property reads as undefined\<close>
  "get_prop obj k = (case map_of obj k of None \<Rightarrow> Undefined | Some v \<Rightarrow> v)"

fun truthy :: "js_value \<Rightarrow> bool" where
  "truthy Undefined = False"
| "truthy Null = False"
| "truthy (Bool b) = b"
| "truthy (Num n) = (n \<noteq> 0)"
| "truthy (Str s) = (s \<noteq> [])"
| "truthy _ = True"

text \<open>\<open>{...a, ...b}\<close>: the properties of \<open>a\<close>, overridden and extended by those of \<open>b\<close>;
  spreading \<open>null\<close> adds nothing.\<close>

fun props_of :: "js_value \<Rightarrow> js_object" where
  "props_of (Obj ps) = ps"
| "props_of _ = []"

definition spread2 :: "js_value \<Rightarrow> js_value \<Rightarrow> js_value" where
  "spread2 a b =
     Obj ([p \<leftarrow> props_of a. \<not> has_key (fst p) (props_of b)] @ props_of b)"

text \<open>\<open>s.split(sep)\<close> for a non-empty separator.\<close>

function split_acc :: "string \<Rightarrow> string \<Rightarrow> string \<Rightarrow> string list" where
  "split_acc sep acc [] = [rev acc]"
| "split_acc sep acc (c # cs) =
     (if sep \<noteq> [] \<and> prefix sep (c # cs)
      then rev acc # split_acc sep [] (drop (length sep) (c # cs))
      else split_acc sep (c # acc) cs)"
  by pat_completeness auto
termination
  by (relation "measure (\<lambda>(sep, acc, s). length s)") auto

definition split_str :: "string \<Rightarrow> string \<Rightarrow> string list" where
  "split_str s sep = split_acc sep [] s"

section \<open>The process: handles, collections, driver\<close>

datatype db_handle = Db "string option"
datatype coll_handle = Collection db_handle string

text \<open>The client passed to \<open>injectDB\<close>: \<open>conn.db(name)\<close> and \<open>.collection(name)\<close>
  either give a handle or throw.\<close>

record connection =
  conn_db :: "string option \<Rightarrow> js_error + db_handle"
  conn_collection :: "db_handle \<Rightarrow> string \<Rightarrow> js_error + coll_handle"

record comment =
  c_id :: objectid
  c_name :: string
  c_email :: string
  c_movie_id :: objectid
  c_text :: string
  c_date :: int

record comment_filter =
  f_id :: objectid
  f_email :: string

record comment_set =
  s_text :: string
  s_date :: int

text \<open>The driver calls the data-access objects issue, in the order they are issued.\<close>

datatype request =
    ReqFind js_value js_value js_value
  | ReqToArray
  | ReqCountDocuments js_value
  | ReqAggregate "js_value list"
  | ReqUpdateOne comment_filter comment_set
  | ReqDeleteOne comment_filter
  | ReqAggregateComments "js_value list"

text \<open>
  The state of the process and of the database behind it:
  the module-level handles (\<open>MoviesDAO.#movies\<close>, \<open>MoviesDAO.#mflix\<close> and \<open>comments\<close>,
  \<open>None\<close> while undefined), the environment variable, the two collections, the
  database's reading of query, sort, projection and pipeline documents over the movies
  collection, the trace of driver calls, the console, and the failures of the driver:
  \<open>fault_plan w n\<close> is the error the \<open>n\<close>-th driver call throws, if any.
  A driver call that throws leaves the collections as they were.
\<close>

record world =
  MFLIX_NS :: "string option"
  movies :: "coll_handle option"
  mflix :: "db_handle option"
  comments :: "coll_handle option"
  movies_docs :: "js_value list"
  comments_docs :: "comment list"
  query_matches :: "js_value \<Rightarrow> js_value \<Rightarrow> bool"
  sort_docs :: "js_value \<Rightarrow> js_value \<Rightarrow> js_value list \<Rightarrow> js_value list"
  project_doc :: "js_value \<Rightarrow> js_value \<Rightarrow> js_value \<Rightarrow> js_value"
  run_pipeline :: "js_value list \<Rightarrow> js_value list \<Rightarrow> comment list \<Rightarrow> js_value list"
  fault_plan :: "nat \<Rightarrow> js_error option"
  requests :: "request list"
  console :: "string list"

definition console_error :: "string \<Rightarrow> world \<Rightarrow> world" where
  "console_error line w = w\<lparr>console := console w @ [line]\<rparr>"

definition issue :: "request \<Rightarrow> world \<Rightarrow> js_error option \<times> world" where
  "issue r w = (fault_plan w (length (requests w)), w\<lparr>requests := requests w @ [r]\<rparr>)"

section \<open>CommentsDAO\<close>

datatype 'a dao_response = Response 'a | ErrorResponse js_error

definition CommentsDAO_injectDB :: "connection \<Rightarrow> world \<Rightarrow> world" where
  "CommentsDAO_injectDB conn w =
     (if comments w \<noteq> None then w
      else case conn_db conn (MFLIX_NS w) of
             Inl e \<Rightarrow>
               console_error (''Unable to establish collection handles in userDAO: '' @ toString e) w
           | Inr d \<Rightarrow>
               (case conn_collection conn d ''comments'' of
                  Inl e \<Rightarrow>
                    console_error
                      (''Unable to establish collection handles in userDAO: '' @ toString e) w
                | Inr h \<Rightarrow> w\<lparr>comments := Some h\<rparr>))"

subsection \<open>updateOne and deleteOne of the driver\<close>

definition filter_matches :: "comment_filter \<Rightarrow> comment \<Rightarrow> bool" where
  "filter_matches f c = (c_id c = f_id f \<and> c_email c = f_email f)"

definition apply_set :: "comment_set \<Rightarrow> comment \<Rightarrow> comment" where
  "apply_set u c = c\<lparr>c_text := s_text u, c_date := s_date u\<rparr>"

record update_result =
  matchedCount :: nat
  modifiedCount :: nat

record delete_result =
  deletedCount :: nat

text \<open>The first document the filter matches is updated (or deleted); the counts say
  whether one was found and whether it changed.\<close>

fun updateOne_docs ::
  "comment_filter \<Rightarrow> comment_set \<Rightarrow> comment list \<Rightarrow> comment list \<times> update_result" where
  "updateOne_docs f u [] = ([], \<lparr>matchedCount = 0, modifiedCount = 0\<rparr>)"
| "updateOne_docs f u (c # cs) =
     (if filter_matches f c
      then (apply_set u c # cs,
            \<lparr>matchedCount = 1, modifiedCount = (if apply_set u c = c then 0 else 1)\<rparr>)
      else (c # fst (updateOne_docs f u cs), snd (updateOne_docs f u cs)))"

fun deleteOne_docs :: "comment_filter \<Rightarrow> comment list \<Rightarrow> comment list \<times> delete_result" where
  "deleteOne_docs f [] = ([], \<lparr>deletedCount = 0\<rparr>)"
| "deleteOne_docs f (c # cs) =
     (if filter_matches f c then (cs, \<lparr>deletedCount = 1\<rparr>)
      else (c # fst (deleteOne_docs f cs), snd (deleteOne_docs f cs)))"

definition comments_updateOne ::
  "comment_filter \<Rightarrow> comment_set \<Rightarrow> world \<Rightarrow> (js_error + update_result) \<times> world" where
  "comments_updateOne f u w =
     (case issue (ReqUpdateOne f u) w of
        (Some e, w') \<Rightarrow> (Inl e, w')
      | (None, w') \<Rightarrow>
          (Inr (snd (updateOne_docs f u (comments_docs w'))),
           w'\<lparr>comments_docs := fst (updateOne_docs f u (comments_docs w'))\<rparr>))"

definition comments_deleteOne ::
  "comment_filter \<Rightarrow> world \<Rightarrow> (js_error + delete_result) \<times> world" where
  "comments_deleteOne f w =
     (case issue (ReqDeleteOne f) w of
        (Some e, w') \<Rightarrow> (Inl e, w')
      | (None, w') \<Rightarrow>
          (Inr (snd (deleteOne_docs f (comments_docs w'))),
           w'\<lparr>comments_docs := fst (deleteOne_docs f (comments_docs w'))\<rparr>))"

subsection \<open>updateComment, deleteComment\<close>

definition updateComment ::
  "string \<Rightarrow> string \<Rightarrow> string \<Rightarrow> int \<Rightarrow> world \<Rightarrow> update_result dao_response \<times> world" where
  "updateComment commentId userEmail text date w =
     (case (case comments w of
              None \<Rightarrow> (Inl (TypeError_undefined ''updateOne''), w)
            | Some h \<Rightarrow>
                (case ObjectId commentId of
                   Inl e \<Rightarrow> (Inl e, w)
                 | Inr oid \<Rightarrow>
                     comments_updateOne \<lparr>f_id = oid, f_email = userEmail\<rparr>
                       \<lparr>s_text = text, s_date = date\<rparr> w)) of
        (Inr updateResponse, w') \<Rightarrow> (Response updateResponse, w')
      | (Inl e, w') \<Rightarrow>
          (ErrorResponse e, console_error (''Unable to update comment: '' @ toString e) w'))"

definition deleteComment ::
  "string \<Rightarrow> string \<Rightarrow> world \<Rightarrow> delete_result dao_response \<times> world" where
  "deleteComment commentId userEmail w =
     (case (case comments w of
              None \<Rightarrow> (Inl (TypeError_undefined ''deleteOne''), w)
            | Some h \<Rightarrow>
                (case ObjectId commentId of
                   Inl e \<Rightarrow> (Inl e, w)
                 | Inr oid \<Rightarrow> comments_deleteOne \<lparr>f_id = oid, f_email = userEmail\<rparr> w)) of
        (Inr deleteResponse, w') \<Rightarrow> (Response deleteResponse, w')
      | (Inl e, w') \<Rightarrow>
          (ErrorResponse e, console_error (''Unable to delete comment: '' @ toString e) w'))"

subsection \<open>mostActiveCommenters\<close>

text \<open>
  The pipeline groups the comments by email and counts each group, sorts the groups by
  count descending, and keeps the first twenty. The stages are the functions below.
\<close>

definition group_by_email :: "comment list \<Rightarrow> (string \<times> nat) list" where
  \<comment> \<open>\<open>{ $group: { _id: "$email", count: { $sum: 1 } } }\<close>\<close>
  "group_by_email cs =
     map (\<lambda>e. (e, count_list (map c_email cs) e)) (remdups (map c_email cs))"

definition sort_count_desc :: "(string \<times> nat) list \<Rightarrow> (string \<times> nat) list" where
  \<comment> \<open>\<open>{ $sort: { count: -1 } }\<close>\<close>
  "sort_count_desc gs = sort_key (\<lambda>g. - int (snd g)) gs"

definition limit_stage :: "nat \<Rightarrow> 'a list \<Rightarrow> 'a list" where
  \<comment> \<open>\<open>{ $limit: n }\<close>\<close>
  "limit_stage n xs = take n xs"

definition commenters_pipeline :: "js_value list" where
  "commenters_pipeline =
     [Obj [(''$group'', Obj [(''_id'', Str ''$email''),
                             (''count'', Obj [(''$sum'', Num 1)])])],
      Obj [(''$sort'', Obj [(''count'', Num (- 1))])],
      Obj [(''$limit'', Num 20)]]"

definition comments_aggregate_toArray ::
  "world \<Rightarrow> (js_error + (string \<times> nat) list) \<times> world" where
  "comments_aggregate_toArray w =
     (case issue (ReqAggregateComments commenters_pipeline) w of
        (Some e, w') \<Rightarrow> (Inl e, w')
      | (None, w') \<Rightarrow>
          (Inr (limit_stage 20 (sort_count_desc (group_by_email (comments_docs w')))), w'))"

definition mostActiveCommenters :: "world \<Rightarrow> (string \<times> nat) list dao_response \<times> world" where
  "mostActiveCommenters w =
     (case (case comments w of
              None \<Rightarrow> (Inl (TypeError_undefined ''readConcern''), w)
            | Some h \<Rightarrow> comments_aggregate_toArray w) of
        (Inr aggregateResult, w') \<Rightarrow> (Response aggregateResult, w')
      | (Inl e, w') \<Rightarrow>
          (ErrorResponse e,
           console_error (''Unable to retrieve most active commenters: '' @ toString e) w'))"

section \<open>MoviesDAO\<close>

definition DEFAULT_SORT :: js_value where
  "DEFAULT_SORT = Arr [Arr [Str ''tomatoes.viewer.numReviews'', Num (- 1)]]"

definition MoviesDAO_injectDB :: "connection \<Rightarrow> world \<Rightarrow> world" where
  "MoviesDAO_injectDB conn w =
     (if movies w \<noteq> None then w
      else case conn_db conn (MFLIX_NS w) of
             Inl e \<Rightarrow>
               console_error
                 (''Unable to establish a collection handle in moviesDAO: '' @ toString e) w
           | Inr d \<Rightarrow>
               (let w1 = w\<lparr>mflix := Some d\<rparr> in
                case conn_db conn (MFLIX_NS w1) of
                  Inl e \<Rightarrow>
                    console_error
                      (''Unable to establish a collection handle in moviesDAO: '' @ toString e) w1
                | Inr d' \<Rightarrow>
                    (case conn_collection conn d' ''movies'' of
                       Inl e \<Rightarrow>
                         console_error
                           (''Unable to establish a collection handle in moviesDAO: '' @ toString e)
                           w1
                     | Inr h \<Rightarrow> w1\<lparr>movies := Some h\<rparr>)))"

subsection \<open>Query parameters\<close>

record query_params =
  qp_query :: js_value
  qp_project :: js_value
  qp_sort :: js_value

definition textSearchQuery :: "js_value \<Rightarrow> query_params" where
  "textSearchQuery text =
     (let query = Obj [(''$text'', Obj [(''$search'', text)])];
          meta_score = Obj [(''$meta'', Str ''textScore'')];
          sort_order = Arr [Arr [Str ''score'', meta_score]];
          project = Obj [(''score'', meta_score)]
      in \<lparr>qp_query = query, qp_project = project, qp_sort = sort_order\<rparr>)"

text \<open>\<open>Array.isArray(v) ? v : v.split(", ")\<close>: the call of \<open>split\<close> throws a TypeError
  on a value that is neither an array nor a string.\<close>

fun array_or_split :: "string \<Rightarrow> js_value \<Rightarrow> js_error + js_value" where
  "array_or_split what (Arr xs) = Inr (Arr xs)"
| "array_or_split what (Str s) = Inr (Arr (map Str (split_str s '', '')))"
| "array_or_split what Undefined = Inl (TypeError_undefined ''split'')"
| "array_or_split what Null = Inl (TypeError_undefined ''split'')"
| "array_or_split what v = Inl (TypeError_not_a_function (what @ ''.split''))"

definition castSearchQuery :: "js_value \<Rightarrow> js_error + query_params" where
  "castSearchQuery cast =
     (case array_or_split ''cast'' cast of
        Inl e \<Rightarrow> Inl e
      | Inr searchCast \<Rightarrow>
          Inr \<lparr>qp_query = Obj [(''cast'', Obj [(''$in'', searchCast)])],
               qp_project = Obj [],
               qp_sort = DEFAULT_SORT\<rparr>)"

definition genreSearchQuery :: "js_value \<Rightarrow> js_error + query_params" where
  "genreSearchQuery genre =
     (case array_or_split ''genre'' genre of
        Inl e \<Rightarrow> Inl e
      | Inr searchGenre \<Rightarrow>
          Inr \<lparr>qp_query = Obj [(''genres'', Obj [(''$in'', searchGenre)])],
               qp_project = Obj [],
               qp_sort = DEFAULT_SORT\<rparr>)"

subsection \<open>The driver on the movies collection\<close>

record cursor =
  cur_query :: js_value
  cur_project :: js_value
  cur_sort :: js_value
  cur_skip :: nat
  cur_limit :: nat

definition movies_find ::
  "js_value \<Rightarrow> js_value \<Rightarrow> js_value \<Rightarrow> world \<Rightarrow> (js_error + cursor) \<times> world" where
  \<comment> \<open>\<open>MoviesDAO.#movies.find(query).project(project).sort(sort)\<close>\<close>
  "movies_find query project sort_order w =
     (case movies w of
        None \<Rightarrow> (Inl (TypeError_undefined ''find''), w)
      | Some h \<Rightarrow>
          (case issue (ReqFind query project sort_order) w of
             (Some e, w') \<Rightarrow> (Inl e, w')
           | (None, w') \<Rightarrow>
               (Inr \<lparr>cur_query = query, cur_project = project, cur_sort = sort_order,
                     cur_skip = 0, cur_limit = 0\<rparr>, w')))"

definition cursor_skip :: "nat \<Rightarrow> cursor \<Rightarrow> cursor" where
  "cursor_skip n c = c\<lparr>cur_skip := n\<rparr>"

definition cursor_limit :: "nat \<Rightarrow> cursor \<Rightarrow> cursor" where
  "cursor_limit n c = c\<lparr>cur_limit := n\<rparr>"

definition matching_docs :: "world \<Rightarrow> js_value \<Rightarrow> js_value list" where
  "matching_docs w query = filter (query_matches w query) (movies_docs w)"

text \<open>A cursor gives the matching documents, sorted, from the skip offset on, at most
  as many as the limit says (a limit of 0 is no limit), each projected.\<close>

definition cursor_docs :: "world \<Rightarrow> cursor \<Rightarrow> js_value list" where
  "cursor_docs w c =
     (let sorted_docs = sort_docs w (cur_query c) (cur_sort c) (matching_docs w (cur_query c));
          skipped = drop (cur_skip c) sorted_docs;
          limited = (if cur_limit c = 0 then skipped else take (cur_limit c) skipped)
      in map (project_doc w (cur_query c) (cur_project c)) limited)"

definition cursor_toArray :: "cursor \<Rightarrow> world \<Rightarrow> (js_error + js_value list) \<times> world" where
  "cursor_toArray c w =
     (case issue ReqToArray w of
        (Some e, w') \<Rightarrow> (Inl e, w')
      | (None, w') \<Rightarrow> (Inr (cursor_docs w' c), w'))"

definition movies_countDocuments :: "js_value \<Rightarrow> world \<Rightarrow> (js_error + nat) \<times> world" where
  "movies_countDocuments query w =
     (case movies w of
        None \<Rightarrow> (Inl (TypeError_undefined ''countDocuments''), w)
      | Some h \<Rightarrow>
          (case issue (ReqCountDocuments query) w of
             (Some e, w') \<Rightarrow> (Inl e, w')
           | (None, w') \<Rightarrow> (Inr (length (matching_docs w' query)), w')))"

definition movies_aggregate_next ::
  "js_value list \<Rightarrow> world \<Rightarrow> (js_error + js_value) \<times> world" where
  \<comment> \<open>\<open>MoviesDAO.#movies.aggregate(pipeline).next()\<close>: the first result, or null\<close>
  "movies_aggregate_next pipeline w =
     (case movies w of
        None \<Rightarrow> (Inl (TypeError_undefined ''aggregate''), w)
      | Some h \<Rightarrow>
          (case issue (ReqAggregate pipeline) w of
             (Some e, w') \<Rightarrow> (Inl e, w')
           | (None, w') \<Rightarrow>
               (Inr (case run_pipeline w' pipeline (movies_docs w') (comments_docs w') of
                       [] \<Rightarrow> Null
                     | d # _ \<Rightarrow> d), w')))"

subsection \<open>facetedSearch\<close>

text \<open>
  The argument object of \<open>facetedSearch\<close> and \<open>getMovies\<close>. A field left out is
  \<open>None\<close> and takes its default: \<open>null\<close> for the filters (so \<open>None\<close> stands for a filter
  that is absent or null), 0 for the page, 20 for the page size. Page and page size are
  natural numbers.
\<close>

record search_args =
  a_filters :: "js_object option"
  a_page :: "nat option"
  a_moviesPerPage :: "nat option"

definition arg_page :: "search_args \<Rightarrow> nat" where
  "arg_page args = (case a_page args of None \<Rightarrow> 0 | Some p \<Rightarrow> p)"

definition arg_moviesPerPage :: "search_args \<Rightarrow> nat" where
  "arg_moviesPerPage args = (case a_moviesPerPage args of None \<Rightarrow> 20 | Some n \<Rightarrow> n)"

definition bucket_stage :: "string \<Rightarrow> int list \<Rightarrow> js_value" where
  "bucket_stage field boundaries =
     Obj [(''$bucket'',
           Obj [(''groupBy'', Str field),
                (''boundaries'', Arr (map Num boundaries)),
                (''default'', Str ''other''),
                (''output'', Obj [(''count'', Obj [(''$sum'', Num 1)])])])]"

definition facetStage :: js_value where
  "facetStage =
     Obj [(''$facet'',
           Obj [(''runtime'', Arr [bucket_stage ''$runtime'' [0, 60, 90, 120, 180]]),
                (''rating'', Arr [bucket_stage ''$metacritic'' [0, 50, 70, 90, 100]]),
                (''movies'', Arr [Obj [(''$addFields'', Obj [(''title'', Str ''$title'')])]])])]"

definition matchStage :: "js_object \<Rightarrow> js_value" where
  "matchStage filters = Obj [(''$match'', Obj filters)]"

definition sortStage :: js_value where
  "sortStage = Obj [(''$sort'', Obj [(''tomatoes.viewer.numReviews'', Num (- 1))])]"

definition countingPipeline :: "js_object \<Rightarrow> js_value list" where
  "countingPipeline filters =
     [matchStage filters, sortStage, Obj [(''$count'', Str ''count'')]]"

definition queryPipeline :: "js_object \<Rightarrow> nat \<Rightarrow> nat \<Rightarrow> js_value list" where
  "queryPipeline filters page moviesPerPage =
     [matchStage filters, sortStage,
      Obj [(''$skip'', Num (int (moviesPerPage * page)))],
      Obj [(''$limit'', Num (int moviesPerPage))],
      facetStage]"

definition too_large :: js_value where
  "too_large = Obj [(''error'', Str ''Results too large, be more restrictive in filter'')]"

definition must_specify_cast :: js_error where
  "must_specify_cast = Error ''Must specify cast members to filter by.''"

definition facetedSearch :: "search_args \<Rightarrow> world \<Rightarrow> (js_error + js_value) \<times> world" where
  "facetedSearch args w =
     (case a_filters args of
        None \<Rightarrow> (Inl must_specify_cast, w)
      | Some filters \<Rightarrow>
          if \<not> truthy (get_prop filters ''cast'') then (Inl must_specify_cast, w)
          else
            (case movies_aggregate_next
                    (queryPipeline filters (arg_page args) (arg_moviesPerPage args)) w of
               (Inl e, w1) \<Rightarrow> (Inr too_large, w1)
             | (Inr results, w1) \<Rightarrow>
                 (case movies_aggregate_next (countingPipeline filters) w1 of
                    (Inl e, w2) \<Rightarrow> (Inr too_large, w2)
                  | (Inr count_doc, w2) \<Rightarrow> (Inr (spread2 results count_doc), w2))))"

subsection \<open>getMovies\<close>

record movies_result =
  moviesList :: "js_value list"
  totalNumMovies :: nat

definition no_movies :: movies_result where
  "no_movies = \<lparr>moviesList = [], totalNumMovies = 0\<rparr>"

text \<open>Lines 202 to 213: the query parameters chosen from the filters, \<open>None\<close> for the
  empty object, and their destructuring with defaults.\<close>

definition getMovies_queryParams :: "js_object option \<Rightarrow> js_error + query_params option" where
  "getMovies_queryParams filters =
     (case filters of
        None \<Rightarrow> Inr None
      | Some fs \<Rightarrow>
          if has_key ''text'' fs then Inr (Some (textSearchQuery (get_prop fs ''text'')))
          else if has_key ''cast'' fs then map_sum id Some (castSearchQuery (get_prop fs ''cast''))
          else if has_key ''genre'' fs then map_sum id Some (genreSearchQuery (get_prop fs ''genre''))
          else Inr None)"

definition with_defaults :: "query_params option \<Rightarrow> query_params" where
  "with_defaults queryParams =
     (case queryParams of
        None \<Rightarrow> \<lparr>qp_query = Obj [], qp_project = Obj [], qp_sort = DEFAULT_SORT\<rparr>
      | Some qp \<Rightarrow> qp)"

definition getMovies :: "search_args \<Rightarrow> world \<Rightarrow> (js_error + movies_result) \<times> world" where
  "getMovies args w =
     (let page = arg_page args; moviesPerPage = arg_moviesPerPage args in
      case getMovies_queryParams (a_filters args) of
        Inl e \<Rightarrow> (Inl e, w)
      | Inr queryParams \<Rightarrow>
          (let query = qp_query (with_defaults queryParams);
               project = qp_project (with_defaults queryParams);
               sort_order = qp_sort (with_defaults queryParams)
           in case movies_find query project sort_order w of
                (Inl e, w1) \<Rightarrow>
                  (Inr no_movies,
                   console_error (''Unable to issue find command, '' @ toString e) w1)
              | (Inr cursor, w1) \<Rightarrow>
                  (let displayCursor =
                         cursor_limit moviesPerPage (cursor_skip (page * moviesPerPage) cursor)
                   in case cursor_toArray displayCursor w1 of
                        (Inl e, w2) \<Rightarrow>
                          (Inr no_movies,
                           console_error
                             (''Unable to convert cursor to array or problem counting documents, ''
                                @ toString e) w2)
                      | (Inr movies_list, w2) \<Rightarrow>
                          if page = 0 then
                            (case movies_countDocuments query w2 of
                               (Inl e, w3) \<Rightarrow>
                                 (Inr no_movies,
                                  console_error
                                    (''Unable to convert cursor to array or problem counting documents, ''
                                       @ toString e) w3)
                             | (Inr n, w3) \<Rightarrow>
                                 (Inr \<lparr>moviesList = movies_list, totalNumMovies = n\<rparr>, w3))
                          else (Inr \<lparr>moviesList = movies_list, totalNumMovies = 0\<rparr>, w2))))"

subsection \<open>getMovieByID\<close>

definition movie_pipeline :: "objectid \<Rightarrow> js_value list" where
  "movie_pipeline oid =
     [Obj [(''$match'', Obj [(''_id'', Id oid)])],
      Obj [(''$lookup'',
            Obj [(''from'', Str ''comments''),
                 (''let'', Obj [(''id'', Str ''$_id'')]),
                 (''pipeline'',
                  Arr [Obj [(''$match'',
                             Obj [(''$expr'',
                                   Obj [(''$eq'', Arr [Str ''$movie_id'', Str ''$$id''])])])],
                       Obj [(''$sort'', Obj [(''date'', Num (- 1))])]]),
                 (''as'', Str ''comments'')])]]"

definition invalid_id_prefix :: string where
  "invalid_id_prefix =
     ''Error: Argument passed in must be a single String of 12 bytes or a string of 24 hex characters''"

definition getMovieByID :: "string \<Rightarrow> world \<Rightarrow> (js_error + js_value) \<times> world" where
  "getMovieByID ident w =
     (case (case ObjectId ident of
              Inl e \<Rightarrow> (Inl e, w)
            | Inr oid \<Rightarrow> movies_aggregate_next (movie_pipeline oid) w) of
        (Inr movie, w') \<Rightarrow> (Inr movie, w')
      | (Inl e, w') \<Rightarrow>
          if prefix invalid_id_prefix (toString e) then (Inr Null, w')
          else (Inl e,
                console_error (''Something went wrong in getMovieByID: '' @ toString e) w'))"

section \<open>Sample states\<close>

definition demo_comments :: "comment list" where
  "demo_comments =
     [\<lparr>c_id = OID (map of_char ''comment00001''), c_name = ''Ada'', c_email = ''ada@x.com'',
       c_movie_id = OID (map of_char ''movie0000001''), c_text = ''great film'', c_date = 1\<rparr>,
      \<lparr>c_id = OID (map of_char ''comment00002''), c_name = ''Bob'', c_email = ''bob@x.com'',
       c_movie_id = OID (map of_char ''movie0000001''), c_text = ''too long'', c_date = 2\<rparr>]"

definition demo_world :: world where
  "demo_world =
     \<lparr>MFLIX_NS = Some ''sample_mflix'',
      movies = Some (Collection (Db (Some ''sample_mflix'')) ''movies''),
      mflix = Some (Db (Some ''sample_mflix'')),
      comments = Some (Collection (Db (Some ''sample_mflix'')) ''comments''),
      movies_docs = [Obj [(''title'', Str ''Alien'')], Obj [(''title'', Str ''Brazil'')]],
      comments_docs = demo_comments,
      query_matches = (\<lambda>q d. True),
      sort_docs = (\<lambda>q s ds. ds),
      project_doc = (\<lambda>q p d. d),
      run_pipeline = (\<lambda>p ms cs. []),
      fault_plan = (\<lambda>n. None),
      requests = [],
      console = []\<rparr>"

text \<open>The entries of a response, none for the error wrapper.\<close>

fun entries :: "'a list dao_response \<Rightarrow> 'a list" where
  "entries (Response xs) = xs"
| "entries (ErrorResponse e) = []"

text \<open>Counts that fall strictly from each entry to the next, and counts that never rise.\<close>

definition counts_strictly_descending :: "(string \<times> nat) list \<Rightarrow> bool" where
  "counts_strictly_descending xs = sorted_wrt (\<lambda>a b. snd b < snd a) xs"

definition counts_descending :: "(string \<times> nat) list \<Rightarrow> bool" where
  "counts_descending xs = sorted_wrt (\<lambda>a b. snd b \<le> snd a) xs"

definition busy_comments :: "comment list" where
  "busy_comments =
     [\<lparr>c_id = OID (map of_char ''comment00001''), c_name = ''Bob'', c_email = ''bob@x.com'',
       c_movie_id = OID (map of_char ''movie0000001''), c_text = ''too long'', c_date = 1\<rparr>,
      \<lparr>c_id = OID (map of_char ''comment00002''), c_name = ''Ada'', c_email = ''ada@x.com'',
       c_movie_id = OID (map of_char ''movie0000001''), c_text = ''great film'', c_date = 2\<rparr>,
      \<lparr>c_id = OID (map of_char ''comment00003''), c_name = ''Ada'', c_email = ''ada@x.com'',
       c_movie_id = OID (map of_char ''movie0000002''), c_text = ''even better'', c_date = 3\<rparr>]"

text \<open>A driver that throws \<open>e\<close> on its \<open>k\<close>-th call and on no other; two clients;
  a process before any handle is injected.\<close>

definition fault_at :: "nat \<Rightarrow> js_error \<Rightarrow> nat \<Rightarrow> js_error option" where
  "fault_at k e n = (if n = k then Some e else None)"

definition demo_conn :: connection where
  "demo_conn =
     \<lparr>conn_db = (\<lambda>ns. Inr (Db ns)),
      conn_collection = (\<lambda>d name. Inr (Collection d name))\<rparr>"

definition other_conn :: connection where
  "other_conn =
     \<lparr>conn_db = (\<lambda>ns. Inr (Db (Some ''elsewhere''))),
      conn_collection = (\<lambda>d name. Inr (Collection d name))\<rparr>"

definition fresh_world :: world where
  "fresh_world = demo_world\<lparr>movies := None, mflix := None, comments := None\<rparr>"

text \<open>Two states hold the same three handles.\<close>

definition same_handles :: "world \<Rightarrow> world \<Rightarrow> bool" where
  "same_handles w w' = (movies w' = movies w \<and> mflix w' = mflix w \<and> comments w' = comments w)"

text \<open>Filters and arguments of sample calls.\<close>

definition cast_filter :: js_object where
  "cast_filter = [(''cast'', Obj [(''$in'', Arr [Str ''Sigourney Weaver''])])]"

definition page_args :: "nat \<Rightarrow> nat \<Rightarrow> search_args" where
  "page_args page moviesPerPage =
     \<lparr>a_filters = None, a_page = Some page, a_moviesPerPage = Some moviesPerPage\<rparr>"

definition all_keys_filter :: js_object where
  "all_keys_filter =
     [(''genre'', Str ''Horror, Sci-Fi''), (''cast'', Str ''Sigourney Weaver, Tom Skerritt''),
      (''text'', Str ''alien'')]"

section \<open>Properties of CommentsDAO\<close>

lemma updateOne_docs_no_match:
  "\<forall>c\<in>set cs. \<not> filter_matches f c \<Longrightarrow>
     updateOne_docs f u cs = (cs, \<lparr>matchedCount = 0, modifiedCount = 0\<rparr>)"
  by (induction cs) simp_all

lemma deleteOne_docs_no_match:
  "\<forall>c\<in>set cs. \<not> filter_matches f c \<Longrightarrow>
     deleteOne_docs f cs = (cs, \<lparr>deletedCount = 0\<rparr>)"
  by (induction cs) simp_all

text \<open>
  C1. Let the comment identifier be valid and let no stored comment with that identifier
  carry the given email. Then \<open>updateComment\<close> and \<open>deleteComment\<close> leave the comments
  collection as it was, whatever the driver does. When the handle is injected and the
  driver call completes, both report zero counts, and the call they issued carries the
  email in its filter. When the driver call throws, both return the error wrapper.
\<close>

theorem foreign_email_changes_nothing:
  assumes valid: "ObjectId commentId = Inr oid"
    and foreign: "\<forall>c\<in>set (comments_docs w). c_id c = oid \<longrightarrow> c_email c \<noteq> userEmail"
  shows "comments_docs (snd (updateComment commentId userEmail text date w)) = comments_docs w
       \<and> comments_docs (snd (deleteComment commentId userEmail w)) = comments_docs w
       \<and> (comments w \<noteq> None \<and> fault_plan w (length (requests w)) = None \<longrightarrow>
            fst (updateComment commentId userEmail text date w)
              = Response \<lparr>matchedCount = 0, modifiedCount = 0\<rparr>
          \<and> requests (snd (updateComment commentId userEmail text date w))
              = requests w @ [ReqUpdateOne \<lparr>f_id = oid, f_email = userEmail\<rparr>
                                \<lparr>s_text = text, s_date = date\<rparr>]
          \<and> fst (deleteComment commentId userEmail w) = Response \<lparr>deletedCount = 0\<rparr>
          \<and> requests (snd (deleteComment commentId userEmail w))
              = requests w @ [ReqDeleteOne \<lparr>f_id = oid, f_email = userEmail\<rparr>])
       \<and> (comments w = None \<or> fault_plan w (length (requests w)) \<noteq> None \<longrightarrow>
            (\<exists>e. fst (updateComment commentId userEmail text date w) = ErrorResponse e)
          \<and> (\<exists>e. fst (deleteComment commentId userEmail w) = ErrorResponse e))"
proof -
  let ?f = "\<lparr>f_id = oid, f_email = userEmail\<rparr>"
  have nomatch: "\<forall>c\<in>set (comments_docs w). \<not> filter_matches ?f c"
    using foreign by (auto simp: filter_matches_def)
  have upd: "updateOne_docs ?f u (comments_docs w)
               = (comments_docs w, \<lparr>matchedCount = 0, modifiedCount = 0\<rparr>)" for u
    using nomatch by (rule updateOne_docs_no_match)
  have del: "deleteOne_docs ?f (comments_docs w) = (comments_docs w, \<lparr>deletedCount = 0\<rparr>)"
    using nomatch by (rule deleteOne_docs_no_match)
  show ?thesis
    using valid upd del
    by (auto simp: updateComment_def deleteComment_def comments_updateOne_def
        comments_deleteOne_def issue_def console_error_def split: option.splits)
qed

theorem foreign_email_changes_nothing_witness:
  "fst (updateComment ''comment00001'' ''bob@x.com'' ''hijacked'' 3 demo_world)
     = Response \<lparr>matchedCount = 0, modifiedCount = 0\<rparr>
   \<and> comments_docs (snd (updateComment ''comment00001'' ''bob@x.com'' ''hijacked'' 3 demo_world))
     = demo_comments
   \<and> fst (deleteComment ''comment00001'' ''bob@x.com'' demo_world) = Response \<lparr>deletedCount = 0\<rparr>
   \<and> comments_docs (snd (deleteComment ''comment00001'' ''bob@x.com'' demo_world)) = demo_comments"
  using foreign_email_changes_nothing [of "''comment00001''" "OID (map of_char ''comment00001'')"
      demo_world "''bob@x.com''" "''hijacked''" 3]
  by (simp add: ObjectId_def ObjectId_isValid_def demo_world_def demo_comments_def)

lemma group_by_email_entry:
  "g \<in> set (group_by_email cs) \<Longrightarrow>
     snd g = count_list (map c_email cs) (fst g) \<and> fst g \<in> set (map c_email cs)"
  by (auto simp: group_by_email_def)

lemma group_by_email_keys: "map fst (group_by_email cs) = remdups (map c_email cs)"
  by (simp add: group_by_email_def comp_def)

lemma distinct_keys_insort:
  "distinct (map fst (insort_key f x xs)) = (fst x \<notin> fst ` set xs \<and> distinct (map fst xs))"
  by (induction xs) (auto simp: set_insort_key)

lemma distinct_keys_sort: "distinct (map fst (sort_key f xs)) = distinct (map fst xs)"
  by (induction xs) (simp_all add: distinct_keys_insort)

lemma counts_descending_sort: "counts_descending (sort_count_desc gs)"
proof -
  have "sorted (map (\<lambda>g. - int (snd g)) (sort_key (\<lambda>g. - int (snd g)) gs))"
    by (rule sorted_sort_key)
  then have "sorted_wrt (\<lambda>a b. - int (snd a) \<le> - int (snd b)) (sort_count_desc gs)"
    by (simp add: sorted_map sort_count_desc_def)
  then show ?thesis
    unfolding counts_descending_def by (rule sorted_wrt_mono_rel [rotated]) simp
qed

lemma top20_properties:
  fixes cs :: "comment list"
  defines "xs \<equiv> limit_stage 20 (sort_count_desc (group_by_email cs))"
  shows "length xs \<le> 20"
    and "counts_descending xs"
    and "distinct (map fst xs)"
    and "\<forall>g\<in>set xs. snd g = count_list (map c_email cs) (fst g) \<and> 0 < snd g"
    and "\<forall>e\<in>set (map c_email cs) - fst ` set xs. \<forall>g\<in>set xs.
           count_list (map c_email cs) e \<le> snd g"
proof -
  let ?S = "sort_count_desc (group_by_email cs)"
  have setS: "set ?S = set (group_by_email cs)"
    by (simp add: sort_count_desc_def)
  show "length xs \<le> 20"
    by (simp add: xs_def limit_stage_def)
  have desc: "counts_descending ?S" by (rule counts_descending_sort)
  then show "counts_descending xs"
    unfolding counts_descending_def xs_def limit_stage_def by (rule sorted_wrt_take)
  have "distinct (map fst ?S)"
    by (simp add: sort_count_desc_def distinct_keys_sort group_by_email_keys)
  then have "distinct (take 20 (map fst ?S))" by (rule distinct_take)
  then show "distinct (map fst xs)"
    by (simp add: xs_def limit_stage_def take_map)
  show entry: "\<forall>g\<in>set xs. snd g = count_list (map c_email cs) (fst g) \<and> 0 < snd g"
  proof
    fix g assume "g \<in> set xs"
    then have "g \<in> set (group_by_email cs)"
      using setS by (auto simp: xs_def limit_stage_def dest: in_set_takeD)
    then have g: "snd g = count_list (map c_email cs) (fst g)" "fst g \<in> set (map c_email cs)"
      using group_by_email_entry [of g cs] by blast+
    then have "count_list (map c_email cs) (fst g) \<noteq> 0"
      by (simp only: count_list_0_iff) simp
    with g show "snd g = count_list (map c_email cs) (fst g) \<and> 0 < snd g" by simp
  qed
  show "\<forall>e\<in>set (map c_email cs) - fst ` set xs. \<forall>g\<in>set xs.
           count_list (map c_email cs) e \<le> snd g"
  proof (intro ballI)
    fix e g
    assume e: "e \<in> set (map c_email cs) - fst ` set xs" and g: "g \<in> set xs"
    let ?h = "(e, count_list (map c_email cs) e)"
    have "?h \<in> set (group_by_email cs)"
      using e by (auto simp: group_by_email_def)
    then have "?h \<in> set (take 20 ?S) \<union> set (drop 20 ?S)"
      using setS by (simp flip: set_append)
    moreover have "?h \<notin> set (take 20 ?S)"
      using e by (force simp: xs_def limit_stage_def)
    ultimately have h: "?h \<in> set (drop 20 ?S)" by simp
    have "sorted_wrt (\<lambda>a b. snd b \<le> snd a) (take 20 ?S @ drop 20 ?S)"
      using desc by (simp add: counts_descending_def)
    then have "\<forall>a\<in>set (take 20 ?S). \<forall>b\<in>set (drop 20 ?S). snd b \<le> snd a"
      unfolding sorted_wrt_append by blast
    with h g show "count_list (map c_email cs) e \<le> snd g"
      by (force simp: xs_def limit_stage_def)
  qed
qed

text \<open>
  C5. When the handle is injected and the aggregation completes, \<open>mostActiveCommenters\<close>
  returns at most 20 entries, one per email, each pairing an email with the number of
  comments stored under it, ordered by count from high to low, where neighbours may
  carry equal counts; every email left out has a count no higher than any entry returned.
  When the handle is missing or the driver call throws, it returns the error wrapper.
\<close>

theorem most_active_commenters_top20:
  "(comments w \<noteq> None \<and> fault_plan w (length (requests w)) = None \<longrightarrow>
      (\<exists>xs. fst (mostActiveCommenters w) = Response xs
         \<and> length xs \<le> 20
         \<and> counts_descending xs
         \<and> distinct (map fst xs)
         \<and> (\<forall>g\<in>set xs. snd g = count_list (map c_email (comments_docs w)) (fst g) \<and> 0 < snd g)
         \<and> (\<forall>e\<in>set (map c_email (comments_docs w)) - fst ` set xs. \<forall>g\<in>set xs.
               count_list (map c_email (comments_docs w)) e \<le> snd g)))
   \<and> (comments w = None \<or> fault_plan w (length (requests w)) \<noteq> None \<longrightarrow>
        (\<exists>e. fst (mostActiveCommenters w) = ErrorResponse e))"
proof (intro conjI impI)
  assume ok: "comments w \<noteq> None \<and> fault_plan w (length (requests w)) = None"
  let ?xs = "limit_stage 20 (sort_count_desc (group_by_email (comments_docs w)))"
  have "fst (mostActiveCommenters w) = Response ?xs"
    using ok by (auto simp: mostActiveCommenters_def comments_aggregate_toArray_def issue_def)
  then show "\<exists>xs. fst (mostActiveCommenters w) = Response xs
         \<and> length xs \<le> 20
         \<and> counts_descending xs
         \<and> distinct (map fst xs)
         \<and> (\<forall>g\<in>set xs. snd g = count_list (map c_email (comments_docs w)) (fst g) \<and> 0 < snd g)
         \<and> (\<forall>e\<in>set (map c_email (comments_docs w)) - fst ` set xs. \<forall>g\<in>set xs.
               count_list (map c_email (comments_docs w)) e \<le> snd g)"
    using top20_properties [of "comments_docs w"] by blast
next
  assume "comments w = None \<or> fault_plan w (length (requests w)) \<noteq> None"
  then show "\<exists>e. fst (mostActiveCommenters w) = ErrorResponse e"
    by (auto simp: mostActiveCommenters_def comments_aggregate_toArray_def issue_def
        split: option.splits)
qed

theorem most_active_commenters_top20_witness:
  "fst (mostActiveCommenters (demo_world\<lparr>comments_docs := busy_comments\<rparr>))
     = Response [(''ada@x.com'', 2), (''bob@x.com'', 1)]
   \<and> counts_descending [(''ada@x.com'', 2), (''bob@x.com'', 1)]"
  using most_active_commenters_top20 [of "demo_world\<lparr>comments_docs := busy_comments\<rparr>"]
  by (simp add: demo_world_def busy_comments_def mostActiveCommenters_def
      comments_aggregate_toArray_def issue_def limit_stage_def sort_count_desc_def
      group_by_email_def counts_descending_def)

text \<open>
  C5, as stated: two commenters with one comment each come back with equal counts, so
  the counts are not strictly descending.
\<close>

theorem most_active_commenters_ties:
  "entries (fst (mostActiveCommenters demo_world)) = [(''ada@x.com'', 1), (''bob@x.com'', 1)]
   \<and> \<not> counts_strictly_descending (entries (fst (mostActiveCommenters demo_world)))"
  by (simp add: demo_world_def demo_comments_def mostActiveCommenters_def
      comments_aggregate_toArray_def issue_def limit_stage_def sort_count_desc_def
      group_by_email_def counts_strictly_descending_def)

section \<open>Handles\<close>

lemma MoviesDAO_injectDB_established: "movies w \<noteq> None \<Longrightarrow> MoviesDAO_injectDB conn w = w"
  by (simp add: MoviesDAO_injectDB_def)

lemma CommentsDAO_injectDB_established: "comments w \<noteq> None \<Longrightarrow> CommentsDAO_injectDB conn w = w"
  by (simp add: CommentsDAO_injectDB_def)

lemma fold_fixed: "(\<And>c. f c w = w) \<Longrightarrow> fold f cs w = w"
  by (induction cs) simp_all

lemma MoviesDAO_injectDB_keeps_comments: "comments (MoviesDAO_injectDB conn w) = comments w"
  by (simp add: MoviesDAO_injectDB_def console_error_def Let_def split: sum.splits)

lemma CommentsDAO_injectDB_keeps_movies:
  "movies (CommentsDAO_injectDB conn w) = movies w \<and> mflix (CommentsDAO_injectDB conn w) = mflix w"
  by (simp add: CommentsDAO_injectDB_def console_error_def split: sum.splits)

lemma issue_handles: "same_handles w (snd (issue r w))"
  by (simp add: issue_def same_handles_def)

lemma comments_ops_keep_handles:
  "same_handles w (snd (updateComment commentId userEmail text date w))"
  "same_handles w (snd (deleteComment commentId userEmail w))"
  "same_handles w (snd (mostActiveCommenters w))"
  by (auto simp: updateComment_def deleteComment_def mostActiveCommenters_def
      comments_updateOne_def comments_deleteOne_def comments_aggregate_toArray_def
      issue_def console_error_def same_handles_def split: option.splits sum.splits)

lemma movies_ops_keep_handles:
  "same_handles w (snd (facetedSearch args w))"
  "same_handles w (snd (getMovieByID ident w))"
  by (auto simp: facetedSearch_def getMovieByID_def movies_aggregate_next_def
      issue_def console_error_def same_handles_def split: option.splits sum.splits)

lemma getMovies_keeps_handles: "same_handles w (snd (getMovies args w))"
  by (auto simp: getMovies_def movies_find_def cursor_toArray_def movies_countDocuments_def
      issue_def console_error_def same_handles_def Let_def split: option.splits sum.splits)

text \<open>
  C8. Once \<open>MoviesDAO.#movies\<close> holds a handle, \<open>MoviesDAO.injectDB\<close> with any client
  returns the state as it is, and so does any sequence of such calls; the same holds
  for \<open>comments\<close> and \<open>CommentsDAO.injectDB\<close>. Neither \<open>injectDB\<close> touches the other
  object's handle, and no operation of either object changes a handle.
\<close>

theorem injectDB_initialises_once:
  "(movies w \<noteq> None \<longrightarrow>
      MoviesDAO_injectDB conn w = w \<and> fold MoviesDAO_injectDB conns w = w)
   \<and> (comments w \<noteq> None \<longrightarrow>
      CommentsDAO_injectDB conn w = w \<and> fold CommentsDAO_injectDB conns w = w)
   \<and> comments (MoviesDAO_injectDB conn w) = comments w
   \<and> movies (CommentsDAO_injectDB conn w) = movies w
   \<and> same_handles w (snd (updateComment commentId userEmail text date w))
   \<and> same_handles w (snd (deleteComment commentId userEmail w))
   \<and> same_handles w (snd (mostActiveCommenters w))
   \<and> same_handles w (snd (facetedSearch args w))
   \<and> same_handles w (snd (getMovies args w))
   \<and> same_handles w (snd (getMovieByID ident w))"
  by (simp add: MoviesDAO_injectDB_established CommentsDAO_injectDB_established fold_fixed
      MoviesDAO_injectDB_keeps_comments CommentsDAO_injectDB_keeps_movies
      comments_ops_keep_handles movies_ops_keep_handles getMovies_keeps_handles)

theorem injectDB_initialises_once_witness:
  "movies (MoviesDAO_injectDB demo_conn fresh_world)
     = Some (Collection (Db (Some ''sample_mflix'')) ''movies'')
   \<and> MoviesDAO_injectDB other_conn (MoviesDAO_injectDB demo_conn fresh_world)
     = MoviesDAO_injectDB demo_conn fresh_world
   \<and> comments (CommentsDAO_injectDB demo_conn fresh_world)
     = Some (Collection (Db (Some ''sample_mflix'')) ''comments'')
   \<and> CommentsDAO_injectDB other_conn (CommentsDAO_injectDB demo_conn fresh_world)
     = CommentsDAO_injectDB demo_conn fresh_world"
  using injectDB_initialises_once [of "MoviesDAO_injectDB demo_conn fresh_world" other_conn]
    injectDB_initialises_once [of "CommentsDAO_injectDB demo_conn fresh_world" other_conn]
  by (simp add: MoviesDAO_injectDB_def CommentsDAO_injectDB_def demo_conn_def fresh_world_def
      demo_world_def)

section \<open>Properties of MoviesDAO\<close>

text \<open>
  C3. With the filter absent or null (and with the empty object as well), \<open>facetedSearch\<close>
  throws "Must specify cast members to filter by." and the state is the one it was
  called in: no driver call has been issued.
\<close>

theorem facetedSearch_rejects_empty_filter:
  "facetedSearch \<lparr>a_filters = None, a_page = page, a_moviesPerPage = moviesPerPage\<rparr> w
     = (Inl (Error ''Must specify cast members to filter by.''), w)
   \<and> facetedSearch \<lparr>a_filters = Some [], a_page = page, a_moviesPerPage = moviesPerPage\<rparr> w
     = (Inl (Error ''Must specify cast members to filter by.''), w)
   \<and> requests (snd (facetedSearch \<lparr>a_filters = None, a_page = page,
                                     a_moviesPerPage = moviesPerPage\<rparr> w)) = requests w"
  by (simp add: facetedSearch_def must_specify_cast_def get_prop_def)

theorem facetedSearch_rejects_empty_filter_witness:
  "facetedSearch \<lparr>a_filters = None, a_page = None, a_moviesPerPage = None\<rparr> demo_world
     = (Inl (Error ''Must specify cast members to filter by.''), demo_world)
   \<and> requests (snd (facetedSearch \<lparr>a_filters = None, a_page = None,
                                     a_moviesPerPage = None\<rparr> demo_world)) = []"
  using facetedSearch_rejects_empty_filter [of None None demo_world]
  by (simp add: demo_world_def)

text \<open>
  C10. A filter object without a \<open>cast\<close> key makes \<open>facetedSearch\<close> throw the same
  error, with no driver call issued; the outcome is a thrown error, not the returned
  error object.
\<close>

theorem facetedSearch_rejects_missing_cast:
  assumes "\<not> has_key ''cast'' filters"
  shows "facetedSearch \<lparr>a_filters = Some filters, a_page = page,
                         a_moviesPerPage = moviesPerPage\<rparr> w
           = (Inl (Error ''Must specify cast members to filter by.''), w)
       \<and> fst (facetedSearch \<lparr>a_filters = Some filters, a_page = page,
                               a_moviesPerPage = moviesPerPage\<rparr> w) \<noteq> Inr too_large"
  using assms by (simp add: facetedSearch_def must_specify_cast_def get_prop_def has_key_def)

theorem facetedSearch_rejects_missing_cast_witness:
  "\<not> has_key ''cast'' [(''genre'', Arr [Str ''Action''])]
   \<and> facetedSearch \<lparr>a_filters = Some [(''genre'', Arr [Str ''Action''])], a_page = Some 0,
                     a_moviesPerPage = Some 20\<rparr> demo_world
       = (Inl (Error ''Must specify cast members to filter by.''), demo_world)
   \<and> \<not> has_key ''cast'' [(''text'', Str ''alien'')]
   \<and> facetedSearch \<lparr>a_filters = Some [(''text'', Str ''alien'')], a_page = None,
                     a_moviesPerPage = None\<rparr> demo_world
       = (Inl (Error ''Must specify cast members to filter by.''), demo_world)"
  using facetedSearch_rejects_missing_cast
      [of "[(''genre'', Arr [Str ''Action''])]" "Some 0" "Some 20" demo_world]
    facetedSearch_rejects_missing_cast
      [of "[(''text'', Str ''alien'')]" None None demo_world]
  by (simp add: has_key_def)

text \<open>
  C7. Let the filter carry a truthy \<open>cast\<close>. If the handle is missing, or the first
  aggregation throws, or the second one does, \<open>facetedSearch\<close> returns the object
  \<open>{ error: "Results too large, be more restrictive in filter" }\<close>, whatever the error
  thrown was, and writes nothing to the console.
\<close>

theorem facetedSearch_driver_failure:
  assumes "a_filters args = Some filters"
    and "truthy (get_prop filters ''cast'')"
    and "movies w = None
         \<or> fault_plan w (length (requests w)) \<noteq> None
         \<or> fault_plan w (Suc (length (requests w))) \<noteq> None"
  shows "fst (facetedSearch args w)
           = Inr (Obj [(''error'', Str ''Results too large, be more restrictive in filter'')])
       \<and> console (snd (facetedSearch args w)) = console w"
  using assms
  by (auto simp: facetedSearch_def movies_aggregate_next_def issue_def too_large_def
      split: option.splits)

theorem facetedSearch_driver_failure_witness:
  "fst (facetedSearch \<lparr>a_filters = Some cast_filter, a_page = None, a_moviesPerPage = None\<rparr>
          (demo_world\<lparr>fault_plan := fault_at 0 (Error ''socket closed'')\<rparr>))
     = Inr (Obj [(''error'', Str ''Results too large, be more restrictive in filter'')])
   \<and> fst (facetedSearch \<lparr>a_filters = Some cast_filter, a_page = None, a_moviesPerPage = None\<rparr>
          (demo_world\<lparr>fault_plan := fault_at 1 (Error ''cursor killed'')\<rparr>))
     = Inr (Obj [(''error'', Str ''Results too large, be more restrictive in filter'')])"
  using facetedSearch_driver_failure
      [of "\<lparr>a_filters = Some cast_filter, a_page = None, a_moviesPerPage = None\<rparr>" cast_filter
          "demo_world\<lparr>fault_plan := fault_at 0 (Error ''socket closed'')\<rparr>"]
    facetedSearch_driver_failure
      [of "\<lparr>a_filters = Some cast_filter, a_page = None, a_moviesPerPage = None\<rparr>" cast_filter
          "demo_world\<lparr>fault_plan := fault_at 1 (Error ''cursor killed'')\<rparr>"]
  by (simp add: cast_filter_def get_prop_def demo_world_def fault_at_def)

text \<open>
  C2. On a string that is not a valid identifier \<open>getMovieByID\<close> returns null, throws
  nothing and issues no driver call. The decision is the match of the error's text
  against the known message: a driver error whose text starts with that message is
  answered with null as well, and every other error, the TypeError of a missing handle
  included, is thrown on to the caller.
\<close>

theorem getMovieByID_errors:
  "(\<not> ObjectId_isValid ident \<longrightarrow> getMovieByID ident w = (Inr Null, w))
   \<and> (ObjectId_isValid ident \<and> movies w \<noteq> None
        \<and> fault_plan w (length (requests w)) = Some e
        \<longrightarrow> fst (getMovieByID ident w)
              = (if prefix invalid_id_prefix (toString e) then Inr Null else Inl e))
   \<and> (ObjectId_isValid ident \<and> movies w = None
        \<longrightarrow> fst (getMovieByID ident w) = Inl (TypeError_undefined ''aggregate''))"
proof (intro conjI impI)
  assume "\<not> ObjectId_isValid ident"
  then show "getMovieByID ident w = (Inr Null, w)"
    by (simp add: getMovieByID_def ObjectId_def Error_def toString_def invalid_id_message_def
        invalid_id_prefix_def)
next
  assume "ObjectId_isValid ident \<and> movies w \<noteq> None
          \<and> fault_plan w (length (requests w)) = Some e"
  then show "fst (getMovieByID ident w)
              = (if prefix invalid_id_prefix (toString e) then Inr Null else Inl e)"
    by (auto simp: getMovieByID_def ObjectId_def movies_aggregate_next_def issue_def)
next
  have "\<not> prefix invalid_id_prefix (toString (TypeError_undefined ''aggregate''))"
    by (simp add: invalid_id_prefix_def toString_def TypeError_undefined_def)
  moreover assume "ObjectId_isValid ident \<and> movies w = None"
  ultimately show "fst (getMovieByID ident w) = Inl (TypeError_undefined ''aggregate'')"
    by (simp add: getMovieByID_def ObjectId_def movies_aggregate_next_def)
qed

theorem getMovieByID_errors_witness:
  "getMovieByID ''not-an-id'' demo_world = (Inr Null, demo_world)
   \<and> fst (getMovieByID ''movie0000001''
            (demo_world\<lparr>fault_plan := fault_at 0 (Error ''socket closed'')\<rparr>))
       = Inl (Error ''socket closed'')
   \<and> fst (getMovieByID ''movie0000001'' fresh_world) = Inl (TypeError_undefined ''aggregate'')"
  using getMovieByID_errors [of "''not-an-id''" demo_world]
    getMovieByID_errors [of "''movie0000001''"
      "demo_world\<lparr>fault_plan := fault_at 0 (Error ''socket closed'')\<rparr>" "Error ''socket closed''"]
    getMovieByID_errors [of "''movie0000001''" fresh_world]
  by (simp add: ObjectId_isValid_def demo_world_def fresh_world_def fault_at_def
      invalid_id_prefix_def toString_def Error_def)

text \<open>
  C6. Let the query parameters be built, so that the driver is reached. If the handle
  is missing, or the find call throws, or toArray throws, or (on page 0)
  countDocuments throws, \<open>getMovies\<close> returns \<open>{ moviesList: [], totalNumMovies: 0 }\<close>
  and throws nothing.
\<close>

theorem getMovies_driver_failure:
  assumes "getMovies_queryParams (a_filters args) = Inr queryParams"
    and "movies w = None
         \<or> fault_plan w (length (requests w)) \<noteq> None
         \<or> fault_plan w (Suc (length (requests w))) \<noteq> None
         \<or> (arg_page args = 0 \<and> fault_plan w (Suc (Suc (length (requests w)))) \<noteq> None)"
  shows "fst (getMovies args w) = Inr \<lparr>moviesList = [], totalNumMovies = 0\<rparr>"
  using assms
  by (auto simp: getMovies_def movies_find_def cursor_toArray_def movies_countDocuments_def
      issue_def no_movies_def Let_def split: option.splits)

theorem getMovies_driver_failure_witness:
  "fst (getMovies (page_args 0 20) (demo_world\<lparr>fault_plan := fault_at 0 (Error ''socket closed'')\<rparr>))
     = Inr \<lparr>moviesList = [], totalNumMovies = 0\<rparr>
   \<and> fst (getMovies (page_args 0 20) (demo_world\<lparr>fault_plan := fault_at 1 (Error ''socket closed'')\<rparr>))
     = Inr \<lparr>moviesList = [], totalNumMovies = 0\<rparr>
   \<and> fst (getMovies (page_args 0 20) (demo_world\<lparr>fault_plan := fault_at 2 (Error ''socket closed'')\<rparr>))
     = Inr \<lparr>moviesList = [], totalNumMovies = 0\<rparr>"
  using getMovies_driver_failure [of "page_args 0 20" None
      "demo_world\<lparr>fault_plan := fault_at 0 (Error ''socket closed'')\<rparr>"]
    getMovies_driver_failure [of "page_args 0 20" None
      "demo_world\<lparr>fault_plan := fault_at 1 (Error ''socket closed'')\<rparr>"]
    getMovies_driver_failure [of "page_args 0 20" None
      "demo_world\<lparr>fault_plan := fault_at 2 (Error ''socket closed'')\<rparr>"]
  by (simp add: page_args_def getMovies_queryParams_def arg_page_def demo_world_def fault_at_def)

text \<open>
  C4. Let the query parameters be built, the handle be injected and no driver call
  throw. Then \<open>getMovies\<close> returns the page of the cursor as \<open>moviesList\<close>: the matching
  documents, sorted, from offset page times moviesPerPage, limited to moviesPerPage.
  On page 0 \<open>totalNumMovies\<close> is the number of documents matching the query, positive
  exactly when one matches; on a later page it is 0.
\<close>

theorem getMovies_total_count:
  assumes "getMovies_queryParams (a_filters args) = Inr queryParams"
    and "movies w \<noteq> None"
    and "fault_plan w (length (requests w)) = None"
    and "fault_plan w (Suc (length (requests w))) = None"
    and "arg_page args = 0 \<longrightarrow> fault_plan w (Suc (Suc (length (requests w)))) = None"
  shows "\<exists>r. fst (getMovies args w) = Inr r
       \<and> moviesList r
           = cursor_docs w \<lparr>cur_query = qp_query (with_defaults queryParams),
                             cur_project = qp_project (with_defaults queryParams),
                             cur_sort = qp_sort (with_defaults queryParams),
                             cur_skip = arg_page args * arg_moviesPerPage args,
                             cur_limit = arg_moviesPerPage args\<rparr>
       \<and> (arg_page args = 0 \<longrightarrow>
            totalNumMovies r = length (matching_docs w (qp_query (with_defaults queryParams)))
          \<and> (0 < totalNumMovies r \<longleftrightarrow>
               (\<exists>d\<in>set (movies_docs w). query_matches w (qp_query (with_defaults queryParams)) d)))
       \<and> (0 < arg_page args \<longrightarrow> totalNumMovies r = 0)"
  using assms
  by (auto simp: getMovies_def movies_find_def cursor_toArray_def movies_countDocuments_def
      issue_def Let_def cursor_docs_def matching_docs_def cursor_skip_def cursor_limit_def
      filter_empty_conv)

theorem getMovies_total_count_witness:
  "fst (getMovies (page_args 0 1) demo_world)
     = Inr \<lparr>moviesList = [Obj [(''title'', Str ''Alien'')]], totalNumMovies = 2\<rparr>
   \<and> fst (getMovies (page_args 1 1) demo_world)
     = Inr \<lparr>moviesList = [Obj [(''title'', Str ''Brazil'')]], totalNumMovies = 0\<rparr>"
  using getMovies_total_count [of "page_args 0 1" None demo_world]
    getMovies_total_count [of "page_args 1 1" None demo_world]
  by (simp add: page_args_def getMovies_def getMovies_queryParams_def arg_page_def
      arg_moviesPerPage_def demo_world_def movies_find_def cursor_toArray_def
      movies_countDocuments_def issue_def Let_def cursor_docs_def matching_docs_def
      cursor_skip_def cursor_limit_def with_defaults_def)

lemma getMovies_by_queryParams:
  "getMovies_queryParams fs = getMovies_queryParams fs' \<Longrightarrow>
     getMovies (args\<lparr>a_filters := fs\<rparr>) w = getMovies (args\<lparr>a_filters := fs'\<rparr>) w"
  by (simp add: getMovies_def arg_page_def arg_moviesPerPage_def)

text \<open>
  C9. The filters choose the query by the first of the keys \<open>text\<close>, \<open>cast\<close>, \<open>genre\<close>
  present, in this order: with \<open>text\<close> present the text query is built and \<open>getMovies\<close>
  behaves as on the filter holding that key alone; with \<open>cast\<close> present and \<open>text\<close>
  absent, the same for \<open>cast\<close>; with only \<open>genre\<close> of the three, the same for
  \<open>genre\<close>. With none of the three keys the parameters are those of a call without
  filter: query \<open>{}\<close>, projection \<open>{}\<close>, sort \<open>[["tomatoes.viewer.numReviews", -1]]\<close>, and
  \<open>getMovies\<close> behaves as without filter.
\<close>

theorem getMovies_filter_precedence:
  "(has_key ''text'' fs \<longrightarrow>
      getMovies_queryParams (Some fs) = Inr (Some (textSearchQuery (get_prop fs ''text'')))
    \<and> getMovies (args\<lparr>a_filters := Some fs\<rparr>) w
        = getMovies (args\<lparr>a_filters := Some [(''text'', get_prop fs ''text'')]\<rparr>) w)
   \<and> (\<not> has_key ''text'' fs \<and> has_key ''cast'' fs \<longrightarrow>
      getMovies_queryParams (Some fs) = map_sum id Some (castSearchQuery (get_prop fs ''cast''))
    \<and> getMovies (args\<lparr>a_filters := Some fs\<rparr>) w
        = getMovies (args\<lparr>a_filters := Some [(''cast'', get_prop fs ''cast'')]\<rparr>) w)
   \<and> (\<not> has_key ''text'' fs \<and> \<not> has_key ''cast'' fs \<and> has_key ''genre'' fs \<longrightarrow>
      getMovies_queryParams (Some fs) = map_sum id Some (genreSearchQuery (get_prop fs ''genre''))
    \<and> getMovies (args\<lparr>a_filters := Some fs\<rparr>) w
        = getMovies (args\<lparr>a_filters := Some [(''genre'', get_prop fs ''genre'')]\<rparr>) w)
   \<and> (\<not> has_key ''text'' fs \<and> \<not> has_key ''cast'' fs \<and> \<not> has_key ''genre'' fs \<longrightarrow>
      getMovies_queryParams (Some fs) = getMovies_queryParams None
    \<and> map_sum id with_defaults (getMovies_queryParams (Some fs))
        = Inr \<lparr>qp_query = Obj [], qp_project = Obj [],
               qp_sort = Arr [Arr [Str ''tomatoes.viewer.numReviews'', Num (- 1)]]\<rparr>
    \<and> getMovies (args\<lparr>a_filters := Some fs\<rparr>) w = getMovies (args\<lparr>a_filters := None\<rparr>) w)"
proof (intro conjI impI)
  assume "has_key ''text'' fs"
  then show t: "getMovies_queryParams (Some fs) = Inr (Some (textSearchQuery (get_prop fs ''text'')))"
    by (simp add: getMovies_queryParams_def)
  have "getMovies_queryParams (Some fs)
          = getMovies_queryParams (Some [(''text'', get_prop fs ''text'')])"
    unfolding t by (simp add: getMovies_queryParams_def has_key_def get_prop_def)
  then show "getMovies (args\<lparr>a_filters := Some fs\<rparr>) w
        = getMovies (args\<lparr>a_filters := Some [(''text'', get_prop fs ''text'')]\<rparr>) w"
    by (rule getMovies_by_queryParams)
next
  assume "\<not> has_key ''text'' fs \<and> has_key ''cast'' fs"
  then show c: "getMovies_queryParams (Some fs)
                  = map_sum id Some (castSearchQuery (get_prop fs ''cast''))"
    by (simp add: getMovies_queryParams_def)
  have "getMovies_queryParams (Some fs)
          = getMovies_queryParams (Some [(''cast'', get_prop fs ''cast'')])"
    unfolding c by (simp add: getMovies_queryParams_def has_key_def get_prop_def)
  then show "getMovies (args\<lparr>a_filters := Some fs\<rparr>) w
        = getMovies (args\<lparr>a_filters := Some [(''cast'', get_prop fs ''cast'')]\<rparr>) w"
    by (rule getMovies_by_queryParams)
next
  assume "\<not> has_key ''text'' fs \<and> \<not> has_key ''cast'' fs \<and> has_key ''genre'' fs"
  then show g: "getMovies_queryParams (Some fs)
                  = map_sum id Some (genreSearchQuery (get_prop fs ''genre''))"
    by (simp add: getMovies_queryParams_def)
  have "getMovies_queryParams (Some fs)
          = getMovies_queryParams (Some [(''genre'', get_prop fs ''genre'')])"
    unfolding g by (simp add: getMovies_queryParams_def has_key_def get_prop_def)
  then show "getMovies (args\<lparr>a_filters := Some fs\<rparr>) w
        = getMovies (args\<lparr>a_filters := Some [(''genre'', get_prop fs ''genre'')]\<rparr>) w"
    by (rule getMovies_by_queryParams)
next
  assume none: "\<not> has_key ''text'' fs \<and> \<not> has_key ''cast'' fs \<and> \<not> has_key ''genre'' fs"
  then show n: "getMovies_queryParams (Some fs) = getMovies_queryParams None"
    by (simp add: getMovies_queryParams_def)
  then show "getMovies (args\<lparr>a_filters := Some fs\<rparr>) w = getMovies (args\<lparr>a_filters := None\<rparr>) w"
    by (rule getMovies_by_queryParams)
  show "map_sum id with_defaults (getMovies_queryParams (Some fs))
        = Inr \<lparr>qp_query = Obj [], qp_project = Obj [],
               qp_sort = Arr [Arr [Str ''tomatoes.viewer.numReviews'', Num (- 1)]]\<rparr>"
    unfolding n by (simp add: getMovies_queryParams_def with_defaults_def DEFAULT_SORT_def)
qed

theorem getMovies_filter_precedence_witness:
  "getMovies_queryParams (Some all_keys_filter)
     = Inr (Some \<lparr>qp_query = Obj [(''$text'', Obj [(''$search'', Str ''alien'')])],
                  qp_project = Obj [(''score'', Obj [(''$meta'', Str ''textScore'')])],
                  qp_sort = Arr [Arr [Str ''score'', Obj [(''$meta'', Str ''textScore'')]]]\<rparr>)
   \<and> getMovies_queryParams (Some (butlast all_keys_filter))
     = Inr (Some \<lparr>qp_query = Obj [(''cast'', Obj [(''$in'',
                                 Arr [Str ''Sigourney Weaver'', Str ''Tom Skerritt''])])],
                  qp_project = Obj [],
                  qp_sort = Arr [Arr [Str ''tomatoes.viewer.numReviews'', Num (- 1)]]\<rparr>)
   \<and> getMovies_queryParams (Some [(''genre'', Str ''Horror, Sci-Fi'')])
     = Inr (Some \<lparr>qp_query = Obj [(''genres'', Obj [(''$in'', Arr [Str ''Horror'', Str ''Sci-Fi''])])],
                  qp_project = Obj [],
                  qp_sort = Arr [Arr [Str ''tomatoes.viewer.numReviews'', Num (- 1)]]\<rparr>)
   \<and> getMovies_queryParams (Some [(''year'', Num 1979)]) = Inr None"
  using getMovies_filter_precedence [of all_keys_filter]
    getMovies_filter_precedence [of "butlast all_keys_filter"]
    getMovies_filter_precedence [of "[(''genre'', Str ''Horror, Sci-Fi'')]"]
    getMovies_filter_precedence [of "[(''year'', Num 1979)]"]
  by (simp add: all_keys_filter_def has_key_def get_prop_def textSearchQuery_def
      castSearchQuery_def genreSearchQuery_def split_str_def DEFAULT_SORT_def
      getMovies_queryParams_def Let_def)

end
